theory Spec2Isabelle
  imports Main "HOL-Library.Multiset"
begin

section \<open>Outcomes of the Python code\<close>

text \<open>
  Every exception the modelled code can raise is a value. \<open>Blocked\<close> is not an exception:
  it stands for a task that is suspended on \<open>await queue.get()\<close> of an empty queue and is
  never resumed; an \<open>except Exception\<close> clause does not catch it.
\<close>

datatype error =
  KeyError | UnboundLocalError | IndexError | ValueError | OverflowError | TypeError
  | AttributeError | SyntaxError | RecursionError | Blocked

section \<open>Bill\_Info\_API\_Filler.py: the credential queues\<close>

subsection \<open>asyncio.Queue\<close>



subsection \<open>Segment 3: load\_api\_key\_queues\<close>




subsection \<open>Segment 4: get\_api\_key\<close>



section \<open>Bill\_Info\_API\_Filler.py: fetching one endpoint\<close>

subsection \<open>Segment 5: fetch\_data\<close>

text \<open>
  What the server sends back for one request, or the failure of the transport. The body is
  only read when the status is 200; \<open>Json None\<close> is a body that parses to \<open>None\<close>
  (JSON \<open>null\<close>), \<open>NotJson\<close> a body on which \<open>response.json()\<close> raises.
\<close>

datatype 'p body = Json "'p option" | NotJson

datatype 'p response = HttpResponse int "'p body" | TransportError

definition fetch_data :: "'p response \<Rightarrow> 'p option \<times> int" where
  "fetch_data r =
     (case r of
        HttpResponse status b \<Rightarrow>
          (if status = 200
           then (case b of Json data \<Rightarrow> (data, status) | NotJson \<Rightarrow> (None, - 1))
           else (None, status))
      | TransportError \<Rightarrow> (None, - 1))"

subsection \<open>Segment 6: fetch\_endpoint\_data\<close>

text \<open>
  The dictionary \<open>shared_state\<close> of \<open>process_batches\<close> (its lock left out: the model runs one
  task at a time), and the part of the world a fetch changes: the credential queues, the
  shared state, the keys of the requests sent so far (oldest first) and the arguments of
  the calls of \<open>asyncio.sleep\<close> so far (oldest first). The network is a function \<open>net\<close>:
  \<open>net i\<close> is the response to the \<open>i\<close>-th request of the run, counted from 0.
\<close>

record shared_state =
  error_count :: int
  max_retries_per_request :: int
  backoff_factor :: int
  retry_statuses :: "int set option"

record 'k world =
  queues :: "string \<rightharpoonup> 'k list"
  shared :: shared_state
  requests :: "'k list"
  sleeps :: "int list"








subsection \<open>Notions for stating what a fetch does\<close>

text \<open>
  \<open>cycle_keys q k\<close> are the first \<open>k\<close> keys a queue \<open>q\<close> hands out when every borrowed key is
  put back at once; \<open>attempts g q k e w\<close> is the world \<open>w\<close> after \<open>k\<close> requests with the keys
  of group \<open>g\<close> (whose queue was \<open>q\<close>), \<open>e\<close> of them counted as errors. A response is
  rate-limited when its status is one of the retry statuses. \<open>backoff_sleeps b c k\<close> are the
  sleeps after the rounds \<open>c + 1\<close>, ..., \<open>c + k\<close> with backoff factor \<open>b\<close>, and
  \<open>after_rounds g q c k w\<close> is the world after \<open>k\<close> rounds in which every key was rate-limited.
\<close>

definition cycle_keys :: "'k list \<Rightarrow> nat \<Rightarrow> 'k list" where
  "cycle_keys q k = map (\<lambda>i. q ! (i mod length q)) [0..<k]"

definition attempts :: "string \<Rightarrow> 'k list \<Rightarrow> nat \<Rightarrow> int \<Rightarrow> 'k world \<Rightarrow> 'k world" where
  "attempts g q k e w =
     w\<lparr>queues := (queues w)(g \<mapsto> rotate k q),
       shared := (shared w)\<lparr>error_count := error_count (shared w) + e\<rparr>,
       requests := requests w @ cycle_keys q k\<rparr>"




section \<open>.py: extracting fields from the fetched columns\<close>

subsection \<open>Python values\<close>

text \<open>
  The values a cell of the data frame or \<open>ast.literal_eval\<close> can give: \<open>None\<close>, booleans,
  numbers, strings, bytes, lists, tuples, sets and dictionaries. A set is given by the list
  of its elements and a dictionary by the list of its items, in iteration order, the keys
  being different. Below are the operations the four functions apply to such values, with
  the exception each of them raises on a value it is not defined for: \<open>k in x\<close>, \<open>x[k]\<close> and
  \<open>x.get(k, default)\<close> for a string \<open>k\<close>, \<open>len(x)\<close>, iteration \<open>for y in x\<close>, the truth value of
  \<open>x\<close>, \<open>str.strip()\<close> and \<open>sep.join(xs)\<close>.
\<close>

datatype pyfloat = NaN | Infinity bool | Finite int int

datatype pyobj =
    PyNone | PyBool bool | PyInt int | PyFloat pyfloat | PyStr string | PyBytes string
  | PyList "pyobj list" | PyTuple "pyobj list" | PySet "pyobj list"
  | PyDict "(pyobj \<times> pyobj) list"

fun truthy :: "pyobj \<Rightarrow> bool" where
  "truthy PyNone = False"
| "truthy (PyBool b) = b"
| "truthy (PyInt i) = (i \<noteq> 0)"
| "truthy (PyFloat f) = (case f of Finite m e \<Rightarrow> m \<noteq> 0 | _ \<Rightarrow> True)"
| "truthy (PyStr s) = (s \<noteq> [])"
| "truthy (PyBytes s) = (s \<noteq> [])"
| "truthy (PyList xs) = (xs \<noteq> [])"
| "truthy (PyTuple xs) = (xs \<noteq> [])"
| "truthy (PySet xs) = (xs \<noteq> [])"
| "truthy (PyDict kvs) = (kvs \<noteq> [])"

fun is_substring :: "string \<Rightarrow> string \<Rightarrow> bool" where
  "is_substring k [] = (k = [])"
| "is_substring k (c # s) = (take (length k) (c # s) = k \<or> is_substring k s)"

fun py_contains :: "string \<Rightarrow> pyobj \<Rightarrow> error + bool" where
  "py_contains k (PyDict kvs) = Inr (PyStr k \<in> fst ` set kvs)"
| "py_contains k (PyList xs) = Inr (PyStr k \<in> set xs)"
| "py_contains k (PyTuple xs) = Inr (PyStr k \<in> set xs)"
| "py_contains k (PySet xs) = Inr (PyStr k \<in> set xs)"
| "py_contains k (PyStr s) = Inr (is_substring k s)"
| "py_contains k _ = Inl TypeError"

fun py_getitem :: "pyobj \<Rightarrow> string \<Rightarrow> error + pyobj" where
  "py_getitem (PyDict kvs) k = (case map_of kvs (PyStr k) of None \<Rightarrow> Inl KeyError | Some v \<Rightarrow> Inr v)"
| "py_getitem _ k = Inl TypeError"

fun py_get :: "pyobj \<Rightarrow> string \<Rightarrow> pyobj \<Rightarrow> error + pyobj" where
  "py_get (PyDict kvs) k dflt = (case map_of kvs (PyStr k) of None \<Rightarrow> Inr dflt | Some v \<Rightarrow> Inr v)"
| "py_get _ k dflt = Inl AttributeError"

fun py_len :: "pyobj \<Rightarrow> error + nat" where
  "py_len (PyStr s) = Inr (length s)"
| "py_len (PyBytes s) = Inr (length s)"
| "py_len (PyList xs) = Inr (length xs)"
| "py_len (PyTuple xs) = Inr (length xs)"
| "py_len (PySet xs) = Inr (length xs)"
| "py_len (PyDict kvs) = Inr (length kvs)"
| "py_len _ = Inl TypeError"

fun py_iter :: "pyobj \<Rightarrow> error + pyobj list" where
  "py_iter (PyStr s) = Inr (map (\<lambda>c. PyStr [c]) s)"
| "py_iter (PyBytes s) = Inr (map (\<lambda>c. PyInt (int (of_char c))) s)"
| "py_iter (PyList xs) = Inr xs"
| "py_iter (PyTuple xs) = Inr xs"
| "py_iter (PySet xs) = Inr xs"
| "py_iter (PyDict kvs) = Inr (map fst kvs)"
| "py_iter _ = Inl TypeError"

definition is_space :: "char \<Rightarrow> bool" where
  "is_space c = (of_char c \<in> {9, 10, 11, 12, 13, 28, 29, 30, 31, 32, 133, 160 :: nat})"

definition strip :: "string \<Rightarrow> string" where
  "strip s = rev (dropWhile is_space (rev (dropWhile is_space s)))"

fun join :: "string \<Rightarrow> pyobj list \<Rightarrow> error + string" where
  "join sep [] = Inr []"
| "join sep (PyStr s # xs) =
     (case join sep xs of Inl e \<Rightarrow> Inl e | Inr r \<Rightarrow> Inr (if xs = [] then s else s @ sep @ r))"
| "join sep (_ # xs) = Inl TypeError"

text \<open>
  Three functions of the standard library are parameters of the model, so that every result
  holds whatever they do: \<open>ast.literal_eval\<close> (it returns a value or raises), the
  formatting of a value inside an f-string (\<open>format\<close>; a string is formatted as itself), and
  \<open>sorted(..., key=..., reverse=True)\<close>, which is given the list of the pairs of key and item.
\<close>

definition str_of :: "(pyobj \<Rightarrow> string) \<Rightarrow> pyobj \<Rightarrow> string" where
  "str_of format x = (case x of PyStr s \<Rightarrow> s | _ \<Rightarrow> format x)"

subsection \<open>Segments 2, 3, 5 and 6: the extraction functions\<close>

text \<open>\<open>except (SyntaxError, ValueError)\<close>\<close>

definition caught :: "error \<Rightarrow> bool" where
  "caught e = (e = SyntaxError \<or> e = ValueError)"

fun sponsor_loop ::
    "(pyobj \<Rightarrow> string) \<Rightarrow> pyobj list \<Rightarrow> pyobj list \<Rightarrow> pyobj list \<Rightarrow> error + (pyobj list \<times> pyobj list)" where
  "sponsor_loop format [] sponsors bioguideIds = Inr (sponsors, bioguideIds)"
| "sponsor_loop format (sponsor # rest) sponsors bioguideIds =
     (case py_get sponsor ''firstName'' (PyStr '''') of Inl e \<Rightarrow> Inl e | Inr first_name \<Rightarrow>
      case py_get sponsor ''lastName'' (PyStr '''') of Inl e \<Rightarrow> Inl e | Inr last_name \<Rightarrow>
      (let full_name = strip (str_of format first_name @ '' '' @ str_of format last_name) in
       case py_get sponsor ''bioguideId'' (PyStr '''') of Inl e \<Rightarrow> Inl e | Inr bioguideId \<Rightarrow>
       sponsor_loop format rest (sponsors @ [PyStr full_name]) (bioguideIds @ [bioguideId])))"

definition get_sponsor_info ::
    "(string \<Rightarrow> error + pyobj) \<Rightarrow> (pyobj \<Rightarrow> string) \<Rightarrow> pyobj \<Rightarrow> error + pyobj list" where
  "get_sponsor_info literal_eval format sponsors_str =
     (case sponsors_str of
        PyStr s \<Rightarrow>
          (case literal_eval s of
             Inl e \<Rightarrow> if caught e then Inr [PyStr ''NA'', PyStr ''NA'', PyInt 0] else Inl e
           | Inr data \<Rightarrow>
              (case py_contains ''bill'' data of Inl e \<Rightarrow> Inl e
               | Inr False \<Rightarrow> Inr [PyStr ''NA'', PyStr ''NA'', PyInt 0]
               | Inr True \<Rightarrow>
              (case py_getitem data ''bill'' of Inl e \<Rightarrow> Inl e | Inr bill \<Rightarrow>
               case py_contains ''sponsors'' bill of Inl e \<Rightarrow> Inl e
               | Inr False \<Rightarrow> Inr [PyStr ''NA'', PyStr ''NA'', PyInt 0]
               | Inr True \<Rightarrow>
              (case py_getitem bill ''sponsors'' of Inl e \<Rightarrow> Inl e | Inr sponsor_list \<Rightarrow>
               case py_len sponsor_list of Inl e \<Rightarrow> Inl e | Inr sponsor_count \<Rightarrow>
               case py_iter sponsor_list of Inl e \<Rightarrow> Inl e | Inr items \<Rightarrow>
               case sponsor_loop format items [] [] of Inl e \<Rightarrow> Inl e | Inr (sponsors, bioguideIds) \<Rightarrow>
               case join ''; '' sponsors of Inl e \<Rightarrow> Inl e | Inr sponsor_names_str \<Rightarrow>
               case join ''; '' bioguideIds of Inl e \<Rightarrow> Inl e | Inr bioguideIds_str \<Rightarrow>
                 Inr [PyStr bioguideIds_str, PyStr sponsor_names_str, PyInt (int sponsor_count)]))))
      | _ \<Rightarrow> Inr [PyStr ''NA'', PyStr ''NA'', PyInt 0])"

definition get_summaries_count :: "(string \<Rightarrow> error + pyobj) \<Rightarrow> pyobj \<Rightarrow> error + pyobj" where
  "get_summaries_count literal_eval summaries_str =
     (case summaries_str of
        PyStr s \<Rightarrow>
          (case literal_eval s of
             Inl e \<Rightarrow> if caught e then Inr (PyInt 0) else Inl e
           | Inr data \<Rightarrow>
              (case py_contains ''pagination'' data of Inl e \<Rightarrow> Inl e
               | Inr False \<Rightarrow> Inr (PyInt 0)
               | Inr True \<Rightarrow>
              (case py_getitem data ''pagination'' of Inl e \<Rightarrow> Inl e | Inr pagination \<Rightarrow>
               case py_contains ''count'' pagination of Inl e \<Rightarrow> Inl e
               | Inr False \<Rightarrow> Inr (PyInt 0)
               | Inr True \<Rightarrow> py_getitem pagination ''count'')))
      | _ \<Rightarrow> Inr (PyInt 0))"

fun subject_loop :: "pyobj list \<Rightarrow> pyobj list \<Rightarrow> error + pyobj list" where
  "subject_loop [] subject_texts = Inr subject_texts"
| "subject_loop (subject # rest) subject_texts =
     (case py_get subject ''name'' (PyStr '''') of Inl e \<Rightarrow> Inl e
      | Inr subject_name \<Rightarrow> subject_loop rest (subject_texts @ [subject_name]))"

definition legislative_subjects :: "pyobj \<Rightarrow> error + (nat \<times> pyobj list)" where
  "legislative_subjects subjects_data =
     (case py_contains ''legislativeSubjects'' subjects_data of Inl e \<Rightarrow> Inl e
      | Inr False \<Rightarrow> Inr (0, [])
      | Inr True \<Rightarrow>
     (case py_getitem subjects_data ''legislativeSubjects'' of Inl e \<Rightarrow> Inl e | Inr subjects_list \<Rightarrow>
      if truthy subjects_list
      then (case py_len subjects_list of Inl e \<Rightarrow> Inl e | Inr subject_count \<Rightarrow>
            case py_iter subjects_list of Inl e \<Rightarrow> Inl e | Inr items \<Rightarrow>
            case subject_loop items [] of Inl e \<Rightarrow> Inl e
            | Inr subject_texts \<Rightarrow> Inr (subject_count, subject_texts))
      else Inr (0, [])))"

fun policy_area_names :: "pyobj list \<Rightarrow> error + pyobj list" where
  "policy_area_names [] = Inr []"
| "policy_area_names (pa # rest) =
     (case py_get pa ''name'' (PyStr '''') of Inl e \<Rightarrow> Inl e | Inr c \<Rightarrow>
      if truthy c
      then (case py_get pa ''name'' (PyStr '''') of Inl e \<Rightarrow> Inl e | Inr name \<Rightarrow>
            case policy_area_names rest of Inl e \<Rightarrow> Inl e | Inr names \<Rightarrow> Inr (name # names))
      else policy_area_names rest)"

definition policy_areas :: "pyobj \<Rightarrow> error + (nat \<times> pyobj list)" where
  "policy_areas subjects_data =
     (case py_contains ''policyArea'' subjects_data of Inl e \<Rightarrow> Inl e
      | Inr False \<Rightarrow> Inr (0, [])
      | Inr True \<Rightarrow>
     (case py_getitem subjects_data ''policyArea'' of Inl e \<Rightarrow> Inl e | Inr policy_area \<Rightarrow>
      (case policy_area of
         PyDict kvs \<Rightarrow>
           (case py_get policy_area ''name'' (PyStr '''') of Inl e \<Rightarrow> Inl e | Inr policy_area_name \<Rightarrow>
            if truthy policy_area_name then Inr (1, [policy_area_name]) else Inr (0, []))
       | PyList pas \<Rightarrow>
           (case policy_area_names pas of Inl e \<Rightarrow> Inl e
            | Inr names \<Rightarrow> Inr (length names, names))
       | _ \<Rightarrow> Inr (0, []))))"

definition join_or_NA :: "pyobj list \<Rightarrow> error + string" where
  "join_or_NA texts = (if texts \<noteq> [] then join ''; '' texts else Inr ''NA'')"

definition get_subject_info :: "(string \<Rightarrow> error + pyobj) \<Rightarrow> pyobj \<Rightarrow> error + pyobj list" where
  "get_subject_info literal_eval subjects_str =
     (case subjects_str of
        PyStr s \<Rightarrow>
          (case literal_eval s of
             Inl e \<Rightarrow> if caught e then Inr [PyInt 0, PyStr ''NA'', PyInt 0, PyStr ''NA''] else Inl e
           | Inr data \<Rightarrow>
              (case py_contains ''subjects'' data of Inl e \<Rightarrow> Inl e | Inr present \<Rightarrow>
               case (if present
                     then (case py_getitem data ''subjects'' of Inl e \<Rightarrow> Inl e | Inr subjects_data \<Rightarrow>
                           case legislative_subjects subjects_data of Inl e \<Rightarrow> Inl e | Inr subjects \<Rightarrow>
                           case policy_areas subjects_data of Inl e \<Rightarrow> Inl e
                           | Inr areas \<Rightarrow> Inr (subjects, areas))
                     else Inr ((0, []), (0, []))) of
                 Inl e \<Rightarrow> Inl e
               | Inr ((subject_count, subject_texts), (policy_area_count, policy_area_texts)) \<Rightarrow>
              (case join_or_NA subject_texts of Inl e \<Rightarrow> Inl e | Inr subject_texts_str \<Rightarrow>
               case join_or_NA policy_area_texts of Inl e \<Rightarrow> Inl e | Inr policy_area_texts_str \<Rightarrow>
                 Inr [PyInt (int subject_count), PyStr subject_texts_str,
                      PyInt (int policy_area_count), PyStr policy_area_texts_str])))
      | _ \<Rightarrow> Inr [PyInt 0, PyStr ''NA'', PyInt 0, PyStr ''NA''])"

definition get_date :: "pyobj \<Rightarrow> error + pyobj" where
  "get_date summary =
     (case py_get summary ''updateDate'' (PyStr '''') of Inl e \<Rightarrow> Inl e | Inr d \<Rightarrow>
      if truthy d then Inr d else py_get summary ''actionDate'' (PyStr ''''))"

fun keys_of :: "pyobj list \<Rightarrow> error + pyobj list" where
  "keys_of [] = Inr []"
| "keys_of (summary # rest) =
     (case get_date summary of Inl e \<Rightarrow> Inl e | Inr k \<Rightarrow>
      case keys_of rest of Inl e \<Rightarrow> Inl e | Inr ks \<Rightarrow> Inr (k # ks))"

definition get_latest_summary_text ::
    "(string \<Rightarrow> error + pyobj) \<Rightarrow> ((pyobj \<times> pyobj) list \<Rightarrow> error + pyobj list) \<Rightarrow> pyobj
      \<Rightarrow> error + pyobj" where
  "get_latest_summary_text literal_eval sorted_reverse summaries_str =
     (case summaries_str of
        PyStr s \<Rightarrow>
          (case literal_eval s of
             Inl e \<Rightarrow> if caught e then Inr (PyStr ''NA'') else Inl e
           | Inr data \<Rightarrow>
              (case py_contains ''summaries'' data of Inl e \<Rightarrow> Inl e
               | Inr False \<Rightarrow> Inr (PyStr ''NA'')
               | Inr True \<Rightarrow>
              (case py_getitem data ''summaries'' of Inl e \<Rightarrow> Inl e | Inr summaries \<Rightarrow>
               (case summaries of
                  PyList summaries_list \<Rightarrow>
                    if summaries_list = [] then Inr (PyStr ''NA'')
                    else (case keys_of summaries_list of Inl e \<Rightarrow> Inl e | Inr keys \<Rightarrow>
                          case sorted_reverse (zip keys summaries_list) of Inl e \<Rightarrow> Inl e
                          | Inr summaries_list_sorted \<Rightarrow>
                          (case summaries_list_sorted of
                             [] \<Rightarrow> Inl IndexError
                           | latest_summary # _ \<Rightarrow> py_get latest_summary ''text'' (PyStr ''NA'')))
                | _ \<Rightarrow> Inr (PyStr ''NA'')))))
      | _ \<Rightarrow> Inr (PyStr ''NA''))"

section \<open>Properties of the credential queues\<close>



lemma rotate_Suc_nonempty: "q \<noteq> [] \<Longrightarrow> rotate1 q = tl q @ [hd q]"
  by (cases q) simp_all







section \<open>Properties of fetch\_endpoint\_data\<close>






lemma queues_attempts [simp]: "queues (attempts g q k e w) g = Some (rotate k q)"
  by (simp add: attempts_def)

lemma requests_attempts [simp]: "requests (attempts g q k e w) = requests w @ cycle_keys q k"
  by (simp add: attempts_def)

lemma length_cycle_keys [simp]: "length (cycle_keys q k) = k"
  by (simp add: cycle_keys_def)
















lemma fetch_data_ok [simp]: "fetch_data (HttpResponse 200 (Json d)) = (d, 200)"
  by (simp add: fetch_data_def)














section \<open>Properties of the extraction functions\<close>

lemma extraction_of_parsed_data:
  "get_summaries_count (\<lambda>s. Inr (PyDict [(PyStr ''pagination'', PyDict [(PyStr ''count'', PyInt 3)])]))
      (PyStr ''{...}'') = Inr (PyInt 3)"
  "get_sponsor_info
      (\<lambda>s. Inr (PyDict [(PyStr ''bill'', PyDict [(PyStr ''sponsors'',
          PyList [PyDict [(PyStr ''firstName'', PyStr ''Ann''), (PyStr ''lastName'', PyStr ''Lee''),
                          (PyStr ''bioguideId'', PyStr ''L000001'')],
                  PyDict [(PyStr ''lastName'', PyStr ''Roe''),
                          (PyStr ''bioguideId'', PyStr ''R000002'')]])])]))
      (\<lambda>x. ''?'') (PyStr ''{...}'')
    = Inr [PyStr ''L000001; R000002'', PyStr ''Ann Lee; Roe'', PyInt 2]"
  "get_summaries_count (\<lambda>s. Inr (PyInt 7)) (PyStr ''7'') = Inl TypeError"
  by (simp_all add: get_summaries_count_def get_sponsor_info_def strip_def is_space_def
        str_of_def)

text \<open>
  Claim C10. For every value passed to \<open>get_sponsor_info\<close>, \<open>get_summaries_count\<close>,
  \<open>get_subject_info\<close> or \<open>get_latest_summary_text\<close>: if the value is not a string, or it is a
  string on which \<open>ast.literal_eval\<close> raises \<open>SyntaxError\<close> or \<open>ValueError\<close>, the function
  raises nothing and returns its fallback, \<open>'NA'\<close> for every text and \<open>0\<close> for every count.
\<close>

theorem field_extraction_fallback:
  assumes "(\<forall>s. v \<noteq> PyStr s) \<or> (\<exists>s. v = PyStr s \<and> (literal_eval s = Inl SyntaxError \<or> literal_eval s = Inl ValueError))"
  shows "get_sponsor_info literal_eval format v = Inr [PyStr ''NA'', PyStr ''NA'', PyInt 0]
       \<and> get_summaries_count literal_eval v = Inr (PyInt 0)
       \<and> get_subject_info literal_eval v = Inr [PyInt 0, PyStr ''NA'', PyInt 0, PyStr ''NA'']
       \<and> get_latest_summary_text literal_eval sorted_reverse v = Inr (PyStr ''NA'')"
  using assms
  by (cases v)
     (auto simp: get_sponsor_info_def get_summaries_count_def get_subject_info_def
        get_latest_summary_text_def caught_def)

theorem field_extraction_fallback_witness:
  "get_sponsor_info (\<lambda>s. Inl SyntaxError) (\<lambda>x. ''?'') (PyFloat NaN)
     = Inr [PyStr ''NA'', PyStr ''NA'', PyInt 0]
   \<and> get_summaries_count (\<lambda>s. Inl SyntaxError) (PyFloat NaN) = Inr (PyInt 0)
   \<and> get_subject_info (\<lambda>s. Inl SyntaxError) (PyFloat NaN)
     = Inr [PyInt 0, PyStr ''NA'', PyInt 0, PyStr ''NA'']
   \<and> get_latest_summary_text (\<lambda>s. Inl SyntaxError) (\<lambda>kvs. Inr (map snd kvs)) (PyFloat NaN)
     = Inr (PyStr ''NA'')
   \<and> get_sponsor_info (\<lambda>s. if s = ''{bill:'' then Inl SyntaxError else Inr PyNone) (\<lambda>x. ''?'')
       (PyStr ''{bill:'') = Inr [PyStr ''NA'', PyStr ''NA'', PyInt 0]
   \<and> get_summaries_count (\<lambda>s. if s = ''{bill:'' then Inl SyntaxError else Inr PyNone)
       (PyStr ''{bill:'') = Inr (PyInt 0)
   \<and> get_subject_info (\<lambda>s. if s = ''nan'' then Inl ValueError else Inr PyNone)
       (PyStr ''nan'') = Inr [PyInt 0, PyStr ''NA'', PyInt 0, PyStr ''NA'']
   \<and> get_latest_summary_text (\<lambda>s. if s = ''nan'' then Inl ValueError else Inr PyNone)
       (\<lambda>kvs. Inr (map snd kvs)) (PyStr ''nan'') = Inr (PyStr ''NA'')"
  using field_extraction_fallback
      [of "PyFloat NaN" "\<lambda>s. Inl SyntaxError" "\<lambda>x. ''?''" "\<lambda>kvs. Inr (map snd kvs)"]
    field_extraction_fallback
      [of "PyStr ''{bill:''" "\<lambda>s. if s = ''{bill:'' then Inl SyntaxError else Inr PyNone"
          "\<lambda>x. ''?''" "\<lambda>kvs. Inr (map snd kvs)"]
    field_extraction_fallback
      [of "PyStr ''nan''" "\<lambda>s. if s = ''nan'' then Inl ValueError else Inr PyNone"
          "\<lambda>x. ''?''" "\<lambda>kvs. Inr (map snd kvs)"]
  by simp

end
